theory Spec2Isabelle
  imports Main "HOL-Library.Word"
begin

unbundle bit_operations_syntax

section \<open>Engine values and objects\<close>

text \<open>
  The functions of \<^verbatim>\<open>iotjs_module_process.c\<close> work on \<^verbatim>\<open>jerry_value_t\<close>, the value
  type of the script engine. A value is undefined, a boolean, a number, a string, a
  reference to an object (functions are objects), or a value that carries the error flag:
  an error object of some type with a message text.

  A string of the engine is a sequence of bytes with its size, and a script can put NUL
  bytes into it. \<^verbatim>\<open>iotjs_string_data\<close> yields the pointer to the bytes; where the code
  reads that pointer as a C string (with \<^verbatim>\<open>strcmp\<close>, with \<^verbatim>\<open>strlen\<close>, or by handing
  it to \<^verbatim>\<open>iotjs_module_get\<close>), it reads the bytes before the first NUL: \<open>c_str\<close>. The
  names in the two module tables are C string literals and are given by their characters.
  Paths and plugin locations go to the platform's functions as they are.
\<close>

definition c_str :: "string \<Rightarrow> string" where
  "c_str s = takeWhile (\<lambda>c. c \<noteq> CHR 0x00) s"

datatype jerry_error_t =
    JERRY_ERROR_COMMON
  | JERRY_ERROR_EVAL
  | JERRY_ERROR_RANGE
  | JERRY_ERROR_REFERENCE
  | JERRY_ERROR_SYNTAX
  | JERRY_ERROR_TYPE
  | JERRY_ERROR_URI

datatype jerry_value_t =
    JUndefined
  | JBoolean bool
  | JNumber int
  | JString string
  | JObject nat
  | JError jerry_error_t string

fun jerry_value_has_error_flag :: "jerry_value_t \<Rightarrow> bool" where
  "jerry_value_has_error_flag (JError t msg) = True"
| "jerry_value_has_error_flag v = False"

fun jerry_value_is_undefined :: "jerry_value_t \<Rightarrow> bool" where
  "jerry_value_is_undefined JUndefined = True"
| "jerry_value_is_undefined v = False"

text \<open>
  \<^verbatim>\<open>JS_CREATE_ERROR(TYPE, message)\<close> expands to the engine call
  \<^verbatim>\<open>jerry_create_error(JERRY_ERROR_TYPE, message)\<close>, which yields an error object with the
  error flag set.
\<close>

definition jerry_create_error :: "jerry_error_t \<Rightarrow> string \<Rightarrow> jerry_value_t" where
  "jerry_create_error t msg = JError t msg"

text \<open>
  An object is its list of own properties in the order of their creation; the heap is the
  list of all objects, and an object reference is an index into it. Assigning a property
  that exists replaces its value in place, assigning a new one appends it. Reading a
  property that does not exist yields undefined.
\<close>

type_synonym props = "(string \<times> jerry_value_t) list"
type_synonym heap = "props list"

fun get_prop :: "props \<Rightarrow> string \<Rightarrow> jerry_value_t" where
  "get_prop [] k = JUndefined"
| "get_prop ((k', v') # ps) k = (if k' = k then v' else get_prop ps k)"

fun set_prop :: "props \<Rightarrow> string \<Rightarrow> jerry_value_t \<Rightarrow> props" where
  "set_prop [] k v = [(k, v)]"
| "set_prop ((k', v') # ps) k v =
     (if k' = k then (k, v) # ps else (k', v') # set_prop ps k v)"

definition iotjs_jval_get_property :: "heap \<Rightarrow> nat \<Rightarrow> string \<Rightarrow> jerry_value_t" where
  "iotjs_jval_get_property h r k = (if r < length h then get_prop (h ! r) k else JUndefined)"

definition iotjs_jval_set_property_jval :: "heap \<Rightarrow> nat \<Rightarrow> string \<Rightarrow> jerry_value_t \<Rightarrow> heap" where
  "iotjs_jval_set_property_jval h r k v =
     (if r < length h then h[r := set_prop (h ! r) k v] else h)"

definition jerry_create_object :: "heap \<Rightarrow> nat \<times> heap" where
  "jerry_create_object h = (length h, h @ [[]])"

section \<open>The platform and the observable effects\<close>

text \<open>
  One entry of the table \<^verbatim>\<open>js_modules\<close> of built-in script modules: its name, and
  either the source text (with its length) or, in a snapshot build, the index of its entry
  in the snapshot blob. The table ends with an entry whose name is \<^verbatim>\<open>NULL\<close>; here it is
  a list and that sentinel is its end.
\<close>

record iotjs_js_module =
  js_name :: string
  js_code :: string
  js_idx :: nat

text \<open>
  Everything the file takes from outside: the two module tables, the build flag
  \<^verbatim>\<open>ENABLE_SNAPSHOT\<close>, whether the environment's configuration has a debugger
  (\<^verbatim>\<open>config->debugger != NULL\<close>), the script engine, the file system and the dynamic
  loader. The table \<^verbatim>\<open>iotjs_modules\<close> pairs the name of a native module with the value its
  registration function yields. \<open>uv_fs_stat\<close> gives the \<^verbatim>\<open>st_mode\<close> that the call
  writes into the request's \<^verbatim>\<open>statbuf\<close>, or \<open>None\<close> when the stat fails (the path is
  missing) and the \<^verbatim>\<open>statbuf\<close> is left as it was. \<open>iotjs__file_read\<close> yields \<open>None\<close> for a \<^verbatim>\<open>NULL\<close> buffer, and the
  size it reports is the length of the buffer. \<open>dlopen\<close> and \<open>dlsym\<close> yield \<open>Inl\<close> of the
  text that \<^verbatim>\<open>dlerror()\<close> returns afterwards when they fail; a resolved entry function
  takes the reference of the exports object and changes the heap.
\<close>

record platform =
  js_modules :: "iotjs_js_module list"
  iotjs_modules :: "(string \<times> jerry_value_t) list"
  ENABLE_SNAPSHOT :: bool
  debugger :: bool
  jerry_parse_function :: "string \<Rightarrow> string \<Rightarrow> string \<Rightarrow> jerry_value_t"
  jerry_exec_snapshot_at :: "nat \<Rightarrow> jerry_value_t"
  jerry_exec_snapshot :: "string \<Rightarrow> jerry_value_t"
  jerry_call_function ::
    "jerry_value_t \<Rightarrow> jerry_value_t \<Rightarrow> jerry_value_t list \<Rightarrow> heap \<Rightarrow> jerry_value_t \<times> heap"
  uv_fs_stat :: "string \<Rightarrow> 64 word option"
  iotjs_file_read :: "string \<Rightarrow> string"
  iotjs__file_read :: "string \<Rightarrow> string option"
  dlopen :: "string \<Rightarrow> string + nat"
  dlsym :: "nat \<Rightarrow> string \<Rightarrow> string + (nat \<Rightarrow> heap \<Rightarrow> heap)"

text \<open>
  Each call that leaves the file is recorded, in order, in a trace, so that what was
  called, how often and in which order can be stated.
\<close>

datatype event =
    EvDebuggerStop
  | EvParseFunction string string string
  | EvExecSnapshotAt nat
  | EvExecSnapshot string
  | EvCallFunction jerry_value_t jerry_value_t "jerry_value_t list"
  | EvModuleGet string
  | EvFsStat string
  | EvFileRead string
  | EvDlopen string
  | EvDlsym nat string
  | EvDlclose nat
  | EvInitfn nat nat
  | EvStderr string

record world =
  heap :: heap
  trace :: "event list"
  handles :: "nat list"

definition emit :: "event \<Rightarrow> world \<Rightarrow> world" where
  "emit e w = w\<lparr>trace := trace w @ [e]\<rparr>"

section \<open>Compiling source text\<close>

text \<open>The static string \<^verbatim>\<open>args\<close> of \<^verbatim>\<open>WrapEval\<close>: the formal parameters of every unit.\<close>

definition WrapEval_args :: string where
  "WrapEval_args = ''exports, require, module, native, __filename, __dirname''"

definition WrapEval :: "platform \<Rightarrow> string \<Rightarrow> string \<Rightarrow> world \<Rightarrow> jerry_value_t \<times> world" where
  "WrapEval p nm source w =
     (let args = WrapEval_args;
          res = jerry_parse_function p nm args source
      in (res, emit (EvParseFunction nm args source) w))"

text \<open>
  \<^verbatim>\<open>Compile\<close> takes two string arguments (\<^verbatim>\<open>DJS_CHECK_ARGS(2, string, string)\<close>): the
  file name and the source. The resource name it hands to \<open>WrapEval\<close> is the file name
  with the length \<^verbatim>\<open>strlen(filename)\<close>; the source goes with its full size.
\<close>

definition Compile :: "platform \<Rightarrow> string \<Rightarrow> string \<Rightarrow> world \<Rightarrow> jerry_value_t \<times> world" where
  "Compile p file source w =
     (let w1 = (if debugger p then emit EvDebuggerStop w else w)
      in WrapEval p (c_str file) source w1)"

definition wait_for_source_callback ::
  "platform \<Rightarrow> string \<Rightarrow> string \<Rightarrow> world \<Rightarrow> jerry_value_t \<times> world" where
  "wait_for_source_callback p resource_name source w =
     WrapEval p resource_name source (emit EvDebuggerStop w)"

section \<open>Resolving a module\<close>

text \<open>
  Modelled from the spec: \<^verbatim>\<open>iotjs_module_get\<close>, the lookup in the table of native-static
  modules, is declared in a header and defined in a file that is not among the sources
  here. The spec describes that table as pairs of a name and a factory that produces the
  exports object directly, and the lookup as a check by name: it yields the value of the
  first entry with that name, and undefined when there is none.
\<close>

fun iotjs_module_lookup :: "(string \<times> jerry_value_t) list \<Rightarrow> string \<Rightarrow> jerry_value_t" where
  "iotjs_module_lookup [] nm = JUndefined"
| "iotjs_module_lookup ((n, v) # ms) nm = (if n = nm then v else iotjs_module_lookup ms nm)"

definition iotjs_module_get :: "platform \<Rightarrow> string \<Rightarrow> jerry_value_t" where
  "iotjs_module_get p nm = iotjs_module_lookup (iotjs_modules p) nm"

text \<open>
  Modelled from the spec: \<^verbatim>\<open>iotjs_jval_create_error\<close>, which makes the value returned
  for an unknown module, is defined in a file that is not among the sources here. The
  spec says that resolving an id for which no descriptor is found fails with the error
  \<open>UnknownModule\<close>, and that an error carries its diagnostic text: the function yields an
  error value, of the common type as the other errors of this file, whose message is its
  argument.
\<close>

definition iotjs_jval_create_error :: "string \<Rightarrow> jerry_value_t" where
  "iotjs_jval_create_error msg = jerry_create_error JERRY_ERROR_COMMON msg"

text \<open>
  The loop at the head of \<^verbatim>\<open>CompileModule\<close>: \<open>i\<close> advances over \<^verbatim>\<open>js_modules\<close> until
  the entry's name equals the requested one or the end of the table is reached. The
  function yields the final \<open>i\<close>; \<^verbatim>\<open>js_modules[i].name != NULL\<close> then reads
  \<open>i < length (js_modules p)\<close>.
\<close>

fun scan_js_modules :: "iotjs_js_module list \<Rightarrow> string \<Rightarrow> nat \<Rightarrow> nat" where
  "scan_js_modules [] nm i = i"
| "scan_js_modules (m # ms) nm i =
     (if js_name m = nm then i else scan_js_modules ms nm (Suc i))"

text \<open>
  \<^verbatim>\<open>CompileModule\<close> takes an object and a function
  (\<^verbatim>\<open>DJS_CHECK_ARGS(2, object, function)\<close>): \<open>jmodule\<close> is the reference of the module
  object, \<open>jrequire\<close> the function value. \<^verbatim>\<open>iotjs_jval_as_string\<close> asserts that the
  \<^verbatim>\<open>id\<close> property is a string; the result is \<open>None\<close> when it is not. \<open>name\<close> is
  \<^verbatim>\<open>iotjs_string_data(&id)\<close> read as a C string: the table scan and the native lookup
  use it. \<open>WrapEval\<close> gets the same pointer with the length \<^verbatim>\<open>iotjs_string_size(&id)\<close>,
  which is the whole id.
\<close>

definition CompileModule ::
  "platform \<Rightarrow> nat \<Rightarrow> jerry_value_t \<Rightarrow> world \<Rightarrow> (jerry_value_t \<times> world) option" where
  "CompileModule p jmodule jrequire w =
     (case iotjs_jval_get_property (heap w) jmodule ''id'' of
        JString ident \<Rightarrow>
          (let name = c_str ident;
               i = scan_js_modules (js_modules p) name 0;
               native_module_jval = iotjs_module_get p name;
               w1 = emit (EvModuleGet name) w
           in if jerry_value_has_error_flag native_module_jval
              then Some (native_module_jval, w1)
              else
                (let jexports = iotjs_jval_get_property (heap w1) jmodule ''exports''
                 in if i < length (js_modules p) then
                      (let (jres, w2) =
                             (if ENABLE_SNAPSHOT p
                              then (jerry_exec_snapshot_at p (js_idx (js_modules p ! i)),
                                    emit (EvExecSnapshotAt (js_idx (js_modules p ! i))) w1)
                              else WrapEval p ident (js_code (js_modules p ! i)) w1)
                       in if \<not> jerry_value_has_error_flag jres then
                            (let args = [jexports, jrequire, JObject jmodule, native_module_jval];
                                 jfunc = jres;
                                 (jres', h') = jerry_call_function p jfunc JUndefined args (heap w2)
                             in Some (jres',
                                  emit (EvCallFunction jfunc JUndefined args) (w2\<lparr>heap := h'\<rparr>)))
                          else Some (jres, w2))
                    else if \<not> jerry_value_is_undefined native_module_jval then
                      Some (JUndefined,
                        w1\<lparr>heap := iotjs_jval_set_property_jval (heap w1) jmodule ''exports''
                                      native_module_jval\<rparr>)
                    else Some (iotjs_jval_create_error ''Unknown native module'', w1)))
      | _ \<Rightarrow> None)"

section \<open>Reading files\<close>

text \<open>The macro \<^verbatim>\<open>S_ISREG\<close>: the file type bits of the mode are those of a regular file.\<close>

definition S_ISREG :: "64 word \<Rightarrow> bool" where
  "S_ISREG m = (m AND 0xF000 = 0x8000)"

text \<open>
  \<^verbatim>\<open>ReadSource\<close> and \<^verbatim>\<open>CompileSnapshot\<close> declare the request \<^verbatim>\<open>uv_fs_t fs_req\<close>
  without an initialiser, call \<^verbatim>\<open>uv_fs_stat\<close> on it without reading the call's result,
  and test \<^verbatim>\<open>fs_req.statbuf.st_mode\<close>. What the local holds on entry is an argument
  here, \<open>fs_req\<close>: the \<^verbatim>\<open>st_mode\<close> of its \<^verbatim>\<open>statbuf\<close>. The mode tested is the one the
  stat wrote, or that initial one when the stat failed.
\<close>

definition statbuf_st_mode :: "platform \<Rightarrow> string \<Rightarrow> 64 word \<Rightarrow> 64 word" where
  "statbuf_st_mode p path fs_req = (case uv_fs_stat p path of None \<Rightarrow> fs_req | Some m \<Rightarrow> m)"

definition ReadSource ::
  "platform \<Rightarrow> string \<Rightarrow> 64 word \<Rightarrow> world \<Rightarrow> jerry_value_t \<times> world" where
  "ReadSource p path fs_req w =
     (let w1 = emit (EvFsStat path) w
      in if \<not> S_ISREG (statbuf_st_mode p path fs_req)
         then (jerry_create_error JERRY_ERROR_COMMON ''ReadSource error, not a regular file'', w1)
         else (let code = iotjs_file_read p path
               in (JString code, emit (EvFileRead path) w1)))"

definition CompileSnapshot ::
  "platform \<Rightarrow> string \<Rightarrow> 64 word \<Rightarrow> world \<Rightarrow> jerry_value_t \<times> world" where
  "CompileSnapshot p path fs_req w =
     (let w1 = emit (EvFsStat path) w
      in if \<not> S_ISREG (statbuf_st_mode p path fs_req)
         then (jerry_create_error JERRY_ERROR_COMMON ''ReadSource error, not a regular file'', w1)
         else (let w2 = emit (EvFileRead path) w1
               in case iotjs__file_read p path of
                    None \<Rightarrow>
                      (jerry_create_error JERRY_ERROR_COMMON ''Could not load the snapshot source.'', w2)
                  | Some bytecode \<Rightarrow>
                      if length bytecode = 0
                      then (jerry_create_error JERRY_ERROR_COMMON
                              ''Could not load the snapshot source.'', w2)
                      else (jerry_exec_snapshot p bytecode, emit (EvExecSnapshot bytecode) w2)))"

section \<open>Loading a plugin\<close>

text \<open>
  \<^verbatim>\<open>DLOpen\<close>. The open handles are kept as a list: \<^verbatim>\<open>dlopen\<close> adds the handle it
  returns, \<^verbatim>\<open>dlclose\<close> removes one occurrence of it. What \<^verbatim>\<open>fprintf(stderr, ...)\<close>
  writes is an event of the trace.
\<close>

definition DLOpen :: "platform \<Rightarrow> string \<Rightarrow> world \<Rightarrow> jerry_value_t \<times> world" where
  "DLOpen p location w =
     (let w1 = emit (EvDlopen location) w
      in case dlopen p location of
           Inl diag \<Rightarrow>
             (JNumber (- 1), emit (EvStderr (''dlopen: error('' @ diag @ '')'' @ [CHR 0x0A])) w1)
         | Inr handle \<Rightarrow>
             (let w2 = emit (EvDlsym handle ''iotjs_module_register'')
                         (w1\<lparr>handles := handle # handles w1\<rparr>)
              in case dlsym p handle ''iotjs_module_register'' of
                   Inl err \<Rightarrow>
                     (let w3 = emit (EvStderr (''dlsym: error('' @ err @ '')'' @ [CHR 0x0A])) w2;
                          w4 = emit (EvDlclose handle) (w3\<lparr>handles := remove1 handle (handles w3)\<rparr>)
                      in (JNumber (- 1), w4))
                 | Inr initfn \<Rightarrow>
                     (let (exports, h) = jerry_create_object (heap w2);
                          w3 = emit (EvInitfn handle exports) (w2\<lparr>heap := h\<rparr>)
                      in (JObject exports, w3\<lparr>heap := initfn exports (heap w3)\<rparr>))))"

section \<open>The listing of built-in modules\<close>

text \<open>
  Each of the two loops of \<^verbatim>\<open>SetBuiltinModules\<close> sets, for every name of a table in
  turn, the property of that name to the boolean true.
\<close>

fun set_names_true :: "heap \<Rightarrow> nat \<Rightarrow> string list \<Rightarrow> heap" where
  "set_names_true h obj [] = h"
| "set_names_true h obj (n # ns) =
     set_names_true (iotjs_jval_set_property_jval h obj n (JBoolean True)) obj ns"

definition SetBuiltinModules :: "platform \<Rightarrow> nat \<Rightarrow> heap \<Rightarrow> heap" where
  "SetBuiltinModules p builtin_modules h =
     (let h1 = set_names_true h builtin_modules (map js_name (js_modules p))
      in set_names_true h1 builtin_modules (map fst (iotjs_modules p)))"

text \<open>
  The part of \<^verbatim>\<open>InitProcess\<close> that builds \<^verbatim>\<open>process.builtin_modules\<close>: a new object,
  filled by \<open>SetBuiltinModules\<close>. The result is the object's reference and the heap.
\<close>

definition InitProcess_builtin_modules :: "platform \<Rightarrow> heap \<Rightarrow> nat \<times> heap" where
  "InitProcess_builtin_modules p h =
     (let (builtin_modules, h1) = jerry_create_object h
      in (builtin_modules, SetBuiltinModules p builtin_modules h1))"

text \<open>The names of a list in the order of their first occurrence, each once.\<close>

fun first_occurrences :: "'a list \<Rightarrow> 'a list" where
  "first_occurrences [] = []"
| "first_occurrences (x # xs) = x # first_occurrences (removeAll x xs)"

section \<open>Notions for stating the properties\<close>

text \<open>
  The entry of \<^verbatim>\<open>js_modules\<close> that a name selects is the first one of that name. For
  such an entry and an id, \<open>unit_of\<close> is the value that the build's way of producing a
  unit yields (executing the entry's snapshot, or parsing its source as a function of the
  fixed formal parameters, with the whole id as resource name), and \<open>unit_event\<close> is the
  engine call that produces it.
\<close>

definition builtin_entry :: "platform \<Rightarrow> string \<Rightarrow> iotjs_js_module option" where
  "builtin_entry p nm = find (\<lambda>m. js_name m = nm) (js_modules p)"

definition unit_of :: "platform \<Rightarrow> string \<Rightarrow> iotjs_js_module \<Rightarrow> jerry_value_t" where
  "unit_of p nm m =
     (if ENABLE_SNAPSHOT p then jerry_exec_snapshot_at p (js_idx m)
      else jerry_parse_function p nm WrapEval_args (js_code m))"

definition unit_event :: "platform \<Rightarrow> string \<Rightarrow> iotjs_js_module \<Rightarrow> event" where
  "unit_event p nm m =
     (if ENABLE_SNAPSHOT p then EvExecSnapshotAt (js_idx m)
      else EvParseFunction nm WrapEval_args (js_code m))"

text \<open>
  The events that a call of \<open>CompileModule\<close> added to the trace, and the argument lists
  of the function calls among some events.
\<close>

definition new_events :: "world \<Rightarrow> (jerry_value_t \<times> world) option \<Rightarrow> event list" where
  "new_events w r =
     (case r of None \<Rightarrow> [] | Some (v, w') \<Rightarrow> drop (length (trace w)) (trace w'))"

fun call_args :: "event list \<Rightarrow> jerry_value_t list list" where
  "call_args [] = []"
| "call_args (EvCallFunction f this args # es) = args # call_args es"
| "call_args (e # es) = call_args es"

text \<open>
  What a call of \<open>CompileModule\<close> returned, the heap it left, and the value of the
  \<^verbatim>\<open>exports\<close> property of a module object in that heap.
\<close>

definition result_of :: "(jerry_value_t \<times> world) option \<Rightarrow> jerry_value_t option" where
  "result_of r = map_option fst r"

definition heap_after :: "(jerry_value_t \<times> world) option \<Rightarrow> heap option" where
  "heap_after r = map_option (\<lambda>(v, w'). heap w') r"

definition exports_after :: "nat \<Rightarrow> (jerry_value_t \<times> world) option \<Rightarrow> jerry_value_t option" where
  "exports_after jmodule r =
     map_option (\<lambda>(v, w'). iotjs_jval_get_property (heap w') jmodule ''exports'') r"

text \<open>
  A small platform for concrete runs. Its script table has \<open>fs\<close>, \<open>util\<close> (whose source
  does not parse), \<open>boom\<close> (whose body throws) and \<open>bad\<close>; its native table has \<open>fs\<close>
  (so that this name is in both), \<open>gpio\<close>, and \<open>bad\<close>, whose registration yields an error.
  The engine parses a source into the function object 3, or 14 for the body that throws;
  a call of the former sets \<open>ok\<close> on the exports object it is given and returns
  undefined. The heap holds the module records 0 (\<open>fs\<close>), 5 (\<open>gpio\<close>), 6 (an unknown
  name), 7 (\<open>bad\<close>), 8 (\<open>util\<close>) and 15 (\<open>boom\<close>), each with its own empty exports object,
  and the \<open>require\<close> function 13. In its file system \<open>/lib\<close> is a directory,
  \<open>/dev/null\<close> a character device, \<open>/lib/a.js\<close> and \<open>/lib/empty.snapshot\<close> are
  regular files, and any other path is missing. Its loader opens
  \<open>./valid.so\<close>, which has the entry symbol, and \<open>./nosymbol.so\<close>, which has not.
\<close>

definition ex_platform :: platform where
  "ex_platform = \<lparr>
     js_modules = [\<lparr>js_name = ''fs'', js_code = ''exports.ok = true;'', js_idx = 0\<rparr>,
                   \<lparr>js_name = ''util'', js_code = ''exports.ok = ('', js_idx = 1\<rparr>,
                   \<lparr>js_name = ''boom'', js_code = ''throw new Error();'', js_idx = 2\<rparr>,
                   \<lparr>js_name = ''bad'', js_code = ''exports.ok = true;'', js_idx = 3\<rparr>],
     iotjs_modules = [(''fs'', JObject 1), (''gpio'', JObject 2),
                      (''bad'', JError JERRY_ERROR_COMMON ''init failed'')],
     ENABLE_SNAPSHOT = False,
     debugger = True,
     jerry_parse_function = (\<lambda>nm args source.
        if source = ''exports.ok = ('' then JError JERRY_ERROR_SYNTAX ''unexpected end''
        else if source = ''throw new Error();'' then JObject 14
        else JObject 3),
     jerry_exec_snapshot_at = (\<lambda>i. JObject 3),
     jerry_exec_snapshot = (\<lambda>bytes. JObject 3),
     jerry_call_function = (\<lambda>f this args h.
        if f = JObject 14 then (JError JERRY_ERROR_COMMON ''thrown'', h)
        else (case args of
                JObject e # rest \<Rightarrow>
                  (JUndefined, iotjs_jval_set_property_jval h e ''ok'' (JBoolean True))
              | _ \<Rightarrow> (JUndefined, h))),
     uv_fs_stat = (\<lambda>path. if path = ''/lib'' then Some 0x41ED
                          else if path = ''/dev/null'' then Some 0x21B6
                          else if path = ''/lib/a.js'' \<or> path = ''/lib/empty.snapshot''
                          then Some 0x81A4 else None),
     iotjs_file_read = (\<lambda>path. if path = ''/lib/a.js'' then ''exports.a = 1;'' else []),
     iotjs__file_read = (\<lambda>path. if path = ''/lib/empty.snapshot'' then Some [] else None),
     dlopen = (\<lambda>location. if location = ''./valid.so'' then Inr 3
                           else if location = ''./nosymbol.so'' then Inr 2
                           else Inl ''cannot open shared object file''),
     dlsym = (\<lambda>handle symbol.
        if handle = 3 \<and> symbol = ''iotjs_module_register''
        then Inr (\<lambda>exports h. iotjs_jval_set_property_jval h exports ''hello'' (JNumber 1))
        else Inl ''undefined symbol: iotjs_module_register'')
   \<rparr>"

definition ex_heap :: heap where
  "ex_heap = [[(''id'', JString ''fs''), (''exports'', JObject 4)], [], [], [], [],
              [(''id'', JString ''gpio''), (''exports'', JObject 9)],
              [(''id'', JString ''totally-unknown-module''), (''exports'', JObject 10)],
              [(''id'', JString ''bad''), (''exports'', JObject 11)],
              [(''id'', JString ''util''), (''exports'', JObject 12)],
              [], [], [], [], [], [],
              [(''id'', JString ''boom''), (''exports'', JObject 16)],
              []]"

definition ex_world :: world where
  "ex_world = \<lparr>heap = ex_heap, trace = [], handles = []\<rparr>"

text \<open>
  The same world, but the id of module record 0 is \<open>fs\<close>, a NUL byte, and \<open>x\<close>: a string
  that is the name of no entry of either table.
\<close>

definition ex_nul_id :: string where
  "ex_nul_id = ''fs'' @ [CHR 0x00, CHR ''x'']"

definition ex_world_nul :: world where
  "ex_world_nul =
     \<lparr>heap = ex_heap[0 := [(''id'', JString ex_nul_id), (''exports'', JObject 4)]],
      trace = [], handles = []\<rparr>"

section \<open>Auxiliary facts\<close>

lemma heap_emit: "heap (emit e w) = heap w"
  by (simp add: emit_def)

lemma trace_emit: "trace (emit e w) = trace w @ [e]"
  by (simp add: emit_def)

lemma emit_heap_update: "emit e (w\<lparr>heap := h\<rparr>) = (emit e w)\<lparr>heap := h\<rparr>"
  by (simp add: emit_def)

lemma scan_js_modules_absent:
  "find (\<lambda>m. js_name m = nm) ms = None \<Longrightarrow> scan_js_modules ms nm i = i + length ms"
  by (induction ms arbitrary: i) (auto split: if_splits)

lemma scan_js_modules_found:
  "find (\<lambda>m. js_name m = nm) ms = Some m \<Longrightarrow>
     scan_js_modules ms nm i < i + length ms \<and> ms ! (scan_js_modules ms nm i - i) = m"
proof (induction ms arbitrary: i)
  case Nil
  then show ?case by simp
next
  case (Cons a ms)
  show ?case
  proof (cases "js_name a = nm")
    case True
    with Cons.prems show ?thesis by simp
  next
    case False
    with Cons.prems have f: "find (\<lambda>m. js_name m = nm) ms = Some m" by simp
    from Cons.IH [OF f, of "Suc i"] have
      lt: "scan_js_modules ms nm (Suc i) < Suc i + length ms" and
      nth: "ms ! (scan_js_modules ms nm (Suc i) - Suc i) = m" by simp_all
    have ge: "Suc i \<le> scan_js_modules ms nm (Suc i)"
      by (induction ms arbitrary: i) (auto intro: Suc_leD)
    from False lt nth ge show ?thesis
      by (simp add: Suc_diff_le)
  qed
qed

lemma CompileModule_native_error:
  assumes "iotjs_jval_get_property (heap w) jmodule ''id'' = JString nm"
    and "jerry_value_has_error_flag (iotjs_module_get p (c_str nm))"
  shows "CompileModule p jmodule jrequire w = Some (iotjs_module_get p (c_str nm), emit (EvModuleGet (c_str nm)) w)"
  using assms by (simp add: CompileModule_def Let_def)

lemma CompileModule_unknown:
  assumes "iotjs_jval_get_property (heap w) jmodule ''id'' = JString nm"
    and "builtin_entry p (c_str nm) = None"
    and "iotjs_module_get p (c_str nm) = JUndefined"
  shows "CompileModule p jmodule jrequire w =
           Some (iotjs_jval_create_error ''Unknown native module'', emit (EvModuleGet (c_str nm)) w)"
  using assms scan_js_modules_absent [of "c_str nm" "js_modules p" 0]
  by (simp add: CompileModule_def Let_def builtin_entry_def)

lemma CompileModule_native_only:
  assumes "iotjs_jval_get_property (heap w) jmodule ''id'' = JString nm"
    and "builtin_entry p (c_str nm) = None"
    and "\<not> jerry_value_has_error_flag (iotjs_module_get p (c_str nm))"
    and "iotjs_module_get p (c_str nm) \<noteq> JUndefined"
  shows "CompileModule p jmodule jrequire w =
           Some (JUndefined,
             (emit (EvModuleGet (c_str nm)) w)\<lparr>heap :=
                iotjs_jval_set_property_jval (heap w) jmodule ''exports'' (iotjs_module_get p (c_str nm))\<rparr>)"
proof -
  have "\<not> jerry_value_is_undefined (iotjs_module_get p (c_str nm))"
    using assms(4) by (cases "iotjs_module_get p (c_str nm)") simp_all
  then show ?thesis
    using assms scan_js_modules_absent [of "c_str nm" "js_modules p" 0]
    by (simp add: CompileModule_def Let_def builtin_entry_def emit_def)
qed

lemma CompileModule_unit_error:
  assumes "iotjs_jval_get_property (heap w) jmodule ''id'' = JString nm"
    and "builtin_entry p (c_str nm) = Some m"
    and "\<not> jerry_value_has_error_flag (iotjs_module_get p (c_str nm))"
    and "jerry_value_has_error_flag (unit_of p nm m)"
  shows "CompileModule p jmodule jrequire w =
           Some (unit_of p nm m, emit (unit_event p nm m) (emit (EvModuleGet (c_str nm)) w))"
  using assms scan_js_modules_found [of "c_str nm" "js_modules p" m 0]
  by (cases "ENABLE_SNAPSHOT p")
    (simp_all add: CompileModule_def Let_def builtin_entry_def unit_of_def unit_event_def
      WrapEval_def WrapEval_args_def heap_emit)

lemma CompileModule_invoke:
  assumes "iotjs_jval_get_property (heap w) jmodule ''id'' = JString nm"
    and "builtin_entry p (c_str nm) = Some m"
    and "\<not> jerry_value_has_error_flag (iotjs_module_get p (c_str nm))"
    and "\<not> jerry_value_has_error_flag (unit_of p nm m)"
    and "args = [iotjs_jval_get_property (heap w) jmodule ''exports'', jrequire, JObject jmodule,
                 iotjs_module_get p (c_str nm)]"
  shows "CompileModule p jmodule jrequire w =
           Some (fst (jerry_call_function p (unit_of p nm m) JUndefined args (heap w)),
             (emit (EvCallFunction (unit_of p nm m) JUndefined args)
               (emit (unit_event p nm m) (emit (EvModuleGet (c_str nm)) w)))
             \<lparr>heap := snd (jerry_call_function p (unit_of p nm m) JUndefined args (heap w))\<rparr>)"
  using assms scan_js_modules_found [of "c_str nm" "js_modules p" m 0]
  by (cases "ENABLE_SNAPSHOT p")
    (simp_all add: CompileModule_def Let_def builtin_entry_def unit_of_def unit_event_def
      WrapEval_def WrapEval_args_def heap_emit emit_heap_update split: prod.splits)

lemma CompileModule_cases [consumes 1, case_names native_error unknown native_only unit_error invoke]:
  assumes "iotjs_jval_get_property (heap w) jmodule ''id'' = JString nm"
  obtains
    "jerry_value_has_error_flag (iotjs_module_get p (c_str nm))"
    "CompileModule p jmodule jrequire w = Some (iotjs_module_get p (c_str nm), emit (EvModuleGet (c_str nm)) w)"
  | "\<not> jerry_value_has_error_flag (iotjs_module_get p (c_str nm))"
    "builtin_entry p (c_str nm) = None" "iotjs_module_get p (c_str nm) = JUndefined"
    "CompileModule p jmodule jrequire w =
       Some (iotjs_jval_create_error ''Unknown native module'', emit (EvModuleGet (c_str nm)) w)"
  | "\<not> jerry_value_has_error_flag (iotjs_module_get p (c_str nm))"
    "builtin_entry p (c_str nm) = None" "iotjs_module_get p (c_str nm) \<noteq> JUndefined"
    "CompileModule p jmodule jrequire w =
       Some (JUndefined,
         (emit (EvModuleGet (c_str nm)) w)\<lparr>heap :=
            iotjs_jval_set_property_jval (heap w) jmodule ''exports'' (iotjs_module_get p (c_str nm))\<rparr>)"
  | m where "\<not> jerry_value_has_error_flag (iotjs_module_get p (c_str nm))"
    "builtin_entry p (c_str nm) = Some m" "jerry_value_has_error_flag (unit_of p nm m)"
    "CompileModule p jmodule jrequire w =
       Some (unit_of p nm m, emit (unit_event p nm m) (emit (EvModuleGet (c_str nm)) w))"
  | m where "\<not> jerry_value_has_error_flag (iotjs_module_get p (c_str nm))"
    "builtin_entry p (c_str nm) = Some m" "\<not> jerry_value_has_error_flag (unit_of p nm m)"
    "CompileModule p jmodule jrequire w =
       Some (fst (jerry_call_function p (unit_of p nm m) JUndefined
                   [iotjs_jval_get_property (heap w) jmodule ''exports'', jrequire,
                    JObject jmodule, iotjs_module_get p (c_str nm)] (heap w)),
         (emit (EvCallFunction (unit_of p nm m) JUndefined
                 [iotjs_jval_get_property (heap w) jmodule ''exports'', jrequire,
                  JObject jmodule, iotjs_module_get p (c_str nm)])
           (emit (unit_event p nm m) (emit (EvModuleGet (c_str nm)) w)))
         \<lparr>heap := snd (jerry_call_function p (unit_of p nm m) JUndefined
                   [iotjs_jval_get_property (heap w) jmodule ''exports'', jrequire,
                    JObject jmodule, iotjs_module_get p (c_str nm)] (heap w))\<rparr>)"
proof (cases "jerry_value_has_error_flag (iotjs_module_get p (c_str nm))")
  case True
  with CompileModule_native_error [OF assms True] that(1) show ?thesis by blast
next
  case noerr: False
  show ?thesis
  proof (cases "builtin_entry p (c_str nm)")
    case None
    show ?thesis
    proof (cases "iotjs_module_get p (c_str nm) = JUndefined")
      case True
      with CompileModule_unknown [OF assms None True] that(2) noerr None show ?thesis by blast
    next
      case False
      with CompileModule_native_only [OF assms None noerr False] that(3) noerr None
      show ?thesis by blast
    qed
  next
    case (Some m)
    show ?thesis
    proof (cases "jerry_value_has_error_flag (unit_of p nm m)")
      case True
      with CompileModule_unit_error [OF assms Some noerr True] that(4) noerr Some
      show ?thesis by blast
    next
      case False
      with CompileModule_invoke [OF assms Some noerr False refl] that(5) noerr Some
      show ?thesis by blast
    qed
  qed
qed

lemma new_events_emit1: "new_events w (Some (v, emit e w)) = [e]"
  by (simp add: new_events_def emit_def)

lemma new_events_emit2: "new_events w (Some (v, emit e2 (emit e1 w))) = [e1, e2]"
  by (simp add: new_events_def emit_def)

lemma new_events_emit3:
  "new_events w (Some (v, (emit e3 (emit e2 (emit e1 w)))\<lparr>heap := h\<rparr>)) = [e1, e2, e3]"
  by (simp add: new_events_def emit_def)

lemma new_events_emit1_heap: "new_events w (Some (v, (emit e w)\<lparr>heap := h\<rparr>)) = [e]"
  by (simp add: new_events_def emit_def)

lemma call_args_unit_event: "call_args (unit_event p nm m # es) = call_args es"
  by (simp add: unit_event_def)

lemmas new_events_simps =
  new_events_emit1 new_events_emit2 new_events_emit3 new_events_emit1_heap
  call_args_unit_event

text \<open>Concrete runs on the small platform.\<close>

lemma ex_c_str:
  "c_str ''fs'' = ''fs''"
  "c_str ''gpio'' = ''gpio''"
  "c_str ''bad'' = ''bad''"
  "c_str ''util'' = ''util''"
  "c_str ''boom'' = ''boom''"
  "c_str ''totally-unknown-module'' = ''totally-unknown-module''"
  "c_str ex_nul_id = ''fs''"
  by (simp_all add: c_str_def ex_nul_id_def)

lemma ex_id_fs: "iotjs_jval_get_property (heap ex_world) 0 ''id'' = JString ''fs''"
  by (simp add: ex_world_def ex_heap_def iotjs_jval_get_property_def)

lemma ex_fs: "CompileModule ex_platform 0 (JObject 13) ex_world =
  Some (JUndefined,
    \<lparr>heap = ex_heap[4 := [(''ok'', JBoolean True)]],
     trace = [EvModuleGet ''fs'', EvParseFunction ''fs'' WrapEval_args ''exports.ok = true;'',
              EvCallFunction (JObject 3) JUndefined [JObject 4, JObject 13, JObject 0, JObject 1]],
     handles = []\<rparr>)"
  by (simp add: CompileModule_def ex_c_str ex_platform_def ex_world_def ex_heap_def
      iotjs_jval_get_property_def iotjs_jval_set_property_jval_def iotjs_module_get_def
      WrapEval_def emit_def Let_def)

lemma iotjs_module_lookup_absent:
  "nm \<notin> set (map fst ms) \<Longrightarrow> iotjs_module_lookup ms nm = JUndefined"
  by (induction ms) auto

lemma builtin_entry_absent:
  "nm \<notin> set (map js_name (js_modules p)) \<Longrightarrow> builtin_entry p nm = None"
  by (auto simp: builtin_entry_def find_None_iff)

lemma get_prop_set_prop: "get_prop (set_prop ps k v) k = v"
  by (induction ps) auto

lemma get_property_in_range:
  "iotjs_jval_get_property h r k = JString s \<Longrightarrow> r < length h"
  by (simp add: iotjs_jval_get_property_def split: if_splits)

lemma get_property_set_property:
  "r < length h \<Longrightarrow>
     iotjs_jval_get_property (iotjs_jval_set_property_jval h r k v) r k = v"
  by (simp add: iotjs_jval_get_property_def iotjs_jval_set_property_jval_def get_prop_set_prop)

lemma result_of_Some: "result_of (Some (v, w')) = Some v"
  by (simp add: result_of_def)

lemma heap_after_Some: "heap_after (Some (v, w')) = Some (heap w')"
  by (simp add: heap_after_def)

lemma exports_after_Some:
  "exports_after jmodule (Some (v, w')) =
     Some (iotjs_jval_get_property (heap w') jmodule ''exports'')"
  by (simp add: exports_after_def)

lemmas after_simps = result_of_Some heap_after_Some exports_after_Some heap_emit

lemma ex_id_gpio: "iotjs_jval_get_property (heap ex_world) 5 ''id'' = JString ''gpio''"
  by (simp add: ex_world_def ex_heap_def iotjs_jval_get_property_def)

lemma ex_id_unknown:
  "iotjs_jval_get_property (heap ex_world) 6 ''id'' = JString ''totally-unknown-module''"
  by (simp add: ex_world_def ex_heap_def iotjs_jval_get_property_def)

lemma ex_id_bad: "iotjs_jval_get_property (heap ex_world) 7 ''id'' = JString ''bad''"
  by (simp add: ex_world_def ex_heap_def iotjs_jval_get_property_def)

lemma ex_id_util: "iotjs_jval_get_property (heap ex_world) 8 ''id'' = JString ''util''"
  by (simp add: ex_world_def ex_heap_def iotjs_jval_get_property_def)

lemma ex_id_boom: "iotjs_jval_get_property (heap ex_world) 15 ''id'' = JString ''boom''"
  by (simp add: ex_world_def ex_heap_def iotjs_jval_get_property_def)

lemma ex_native:
  "iotjs_module_get ex_platform ''fs'' = JObject 1"
  "iotjs_module_get ex_platform ''gpio'' = JObject 2"
  "iotjs_module_get ex_platform ''bad'' = JError JERRY_ERROR_COMMON ''init failed''"
  "iotjs_module_get ex_platform ''util'' = JUndefined"
  "iotjs_module_get ex_platform ''boom'' = JUndefined"
  "iotjs_module_get ex_platform ''totally-unknown-module'' = JUndefined"
  by (simp_all add: iotjs_module_get_def ex_platform_def)

lemma ex_builtin:
  "builtin_entry ex_platform ''fs'' =
     Some \<lparr>js_name = ''fs'', js_code = ''exports.ok = true;'', js_idx = 0\<rparr>"
  "builtin_entry ex_platform ''util'' =
     Some \<lparr>js_name = ''util'', js_code = ''exports.ok = ('', js_idx = 1\<rparr>"
  "builtin_entry ex_platform ''boom'' =
     Some \<lparr>js_name = ''boom'', js_code = ''throw new Error();'', js_idx = 2\<rparr>"
  "builtin_entry ex_platform ''bad'' =
     Some \<lparr>js_name = ''bad'', js_code = ''exports.ok = true;'', js_idx = 3\<rparr>"
  "builtin_entry ex_platform ''gpio'' = None"
  "builtin_entry ex_platform ''totally-unknown-module'' = None"
  by (simp_all add: builtin_entry_def ex_platform_def)

lemma ex_unit:
  "unit_of ex_platform nm m =
     (if js_code m = ''exports.ok = ('' then JError JERRY_ERROR_SYNTAX ''unexpected end''
      else if js_code m = ''throw new Error();'' then JObject 14
      else JObject 3)"
  by (simp add: unit_of_def ex_platform_def)

lemma ex_unit_event:
  "unit_event ex_platform nm m = EvParseFunction nm WrapEval_args (js_code m)"
  by (simp add: unit_event_def ex_platform_def)

lemma ex_call:
  "jerry_call_function ex_platform (JObject 14) this args h =
     (JError JERRY_ERROR_COMMON ''thrown'', h)"
  "jerry_call_function ex_platform (JObject 3) this (JObject e # rest) h =
     (JUndefined, iotjs_jval_set_property_jval h e ''ok'' (JBoolean True))"
  by (simp_all add: ex_platform_def)

lemma ex_exports:
  "iotjs_jval_get_property (heap ex_world) 0 ''exports'' = JObject 4"
  "iotjs_jval_get_property (heap ex_world) 15 ''exports'' = JObject 16"
  "iotjs_jval_get_property (heap ex_world) 6 ''exports'' = JObject 10"
  by (simp_all add: ex_world_def ex_heap_def iotjs_jval_get_property_def)

lemma iotjs_jval_create_error_flag:
  "jerry_value_has_error_flag (iotjs_jval_create_error msg)"
  by (simp add: iotjs_jval_create_error_def jerry_create_error_def)

lemma ex_world_fields: "heap ex_world = ex_heap" "trace ex_world = []" "handles ex_world = []"
  by (simp_all add: ex_world_def)

lemma S_ISREG_examples: "\<not> S_ISREG 0x41ED" "S_ISREG 0x81A4" "\<not> S_ISREG 0" "\<not> S_ISREG 0x21B6"
  by (simp_all add: S_ISREG_def)

lemma ex_stat:
  "statbuf_st_mode ex_platform ''/lib'' fs_req = 0x41ED"
  "statbuf_st_mode ex_platform ''/lib/a.js'' fs_req = 0x81A4"
  "statbuf_st_mode ex_platform ''/lib/empty.snapshot'' fs_req = 0x81A4"
  "statbuf_st_mode ex_platform ''/dev/null'' fs_req = 0x21B6"
  "uv_fs_stat ex_platform ''/lib/missing.js'' = None"
  "statbuf_st_mode ex_platform ''/lib/missing.js'' fs_req = fs_req"
  by (simp_all add: ex_platform_def statbuf_st_mode_def)

lemma ex_file_read:
  "iotjs__file_read ex_platform ''/lib/empty.snapshot'' = Some []"
  "iotjs__file_read ex_platform ''/lib/a.js'' = None"
  by (simp_all add: ex_platform_def)

lemma ex_dl:
  "dlopen ex_platform ''./valid.so'' = Inr 3"
  "dlopen ex_platform ''./nosymbol.so'' = Inr 2"
  "dlopen ex_platform ''./missing.so'' = Inl ''cannot open shared object file''"
  "dlsym ex_platform 2 ''iotjs_module_register'' = Inl ''undefined symbol: iotjs_module_register''"
  "dlsym ex_platform 3 ''iotjs_module_register'' =
     Inr (\<lambda>exports h. iotjs_jval_set_property_jval h exports ''hello'' (JNumber 1))"
  by (simp_all add: ex_platform_def)

lemma set_first_occurrences: "set (first_occurrences xs) = set xs"
  by (induction xs rule: first_occurrences.induct) auto

lemma distinct_first_occurrences: "distinct (first_occurrences xs)"
  by (induction xs rule: first_occurrences.induct) (auto simp: set_first_occurrences)

lemma set_prop_true_keys:
  "set_prop (map (\<lambda>n. (n, JBoolean True)) ks) k (JBoolean True) =
     map (\<lambda>n. (n, JBoolean True)) (if k \<in> set ks then ks else ks @ [k])"
  by (induction ks) auto

lemma set_names_true_length: "length (set_names_true h obj ns) = length h"
  by (induction ns arbitrary: h) (auto simp: iotjs_jval_set_property_jval_def)

lemma set_names_true_other:
  "r \<noteq> obj \<Longrightarrow> set_names_true h obj ns ! r = h ! r"
  by (induction ns arbitrary: h) (auto simp: iotjs_jval_set_property_jval_def)

lemma set_names_true_append:
  "set_names_true h obj (xs @ ys) = set_names_true (set_names_true h obj xs) obj ys"
  by (induction xs arbitrary: h) auto

lemma set_names_true_object:
  assumes "obj < length h" and "h ! obj = map (\<lambda>n. (n, JBoolean True)) ks"
  shows "set_names_true h obj ns ! obj =
           map (\<lambda>n. (n, JBoolean True)) (ks @ first_occurrences (filter (\<lambda>n. n \<notin> set ks) ns))"
  using assms
proof (induction ns arbitrary: h ks)
  case Nil
  then show ?case by simp
next
  case (Cons n ns)
  let ?h = "iotjs_jval_set_property_jval h obj n (JBoolean True)"
  let ?ks = "if n \<in> set ks then ks else ks @ [n]"
  have len: "obj < length ?h"
    using Cons.prems(1) by (simp add: iotjs_jval_set_property_jval_def)
  have at: "?h ! obj = map (\<lambda>n. (n, JBoolean True)) ?ks"
    using Cons.prems by (simp add: iotjs_jval_set_property_jval_def set_prop_true_keys)
  have "set_names_true h obj (n # ns) ! obj =
          map (\<lambda>n. (n, JBoolean True)) (?ks @ first_occurrences (filter (\<lambda>x. x \<notin> set ?ks) ns))"
    using Cons.IH [OF len at] by simp
  also have "?ks @ first_occurrences (filter (\<lambda>x. x \<notin> set ?ks) ns) =
          ks @ first_occurrences (filter (\<lambda>x. x \<notin> set ks) (n # ns))"
  proof (cases "n \<in> set ks")
    case True
    then show ?thesis by simp
  next
    case False
    have "filter (\<lambda>x. x \<noteq> n \<and> x \<notin> set ks) ns = removeAll n (filter (\<lambda>x. x \<notin> set ks) ns)"
      by (induction ns) auto
    with False show ?thesis by simp
  qed
  finally show ?case .
qed

lemma ex_tables:
  "map js_name (js_modules ex_platform) = [''fs'', ''util'', ''boom'', ''bad'']"
  "map fst (iotjs_modules ex_platform) = [''fs'', ''gpio'', ''bad'']"
  by (simp_all add: ex_platform_def)

lemma ex_heap_length: "length ex_heap = 17"
  by (simp add: ex_heap_def)

section \<open>Properties\<close>

subsection \<open>The debugger is told to stop before the parse\<close>

text \<open>
  C8. With a debugger configured, \<open>Compile\<close> signals the debugger to stop, then parses
  the source, and does nothing else: the trace grows by exactly the stop signal followed
  by the parse. Without a debugger it grows by the parse alone. The callback for source
  sent by a debugger client signals the stop once before its parse as well.
\<close>

theorem Compile_debugger_stop_once_before_parse:
  "trace (snd (Compile p file source w)) =
     trace w @ (if debugger p then [EvDebuggerStop] else []) @
       [EvParseFunction (c_str file)
          ''exports, require, module, native, __filename, __dirname'' source]
   \<and> fst (Compile p file source w) =
       jerry_parse_function p (c_str file)
         ''exports, require, module, native, __filename, __dirname'' source
   \<and> trace (snd (wait_for_source_callback p file source w)) =
       trace w @ [EvDebuggerStop,
         EvParseFunction file ''exports, require, module, native, __filename, __dirname'' source]"
  by (simp add: Compile_def wait_for_source_callback_def WrapEval_def WrapEval_args_def emit_def
      Let_def)

subsection \<open>The arguments of an invocation\<close>

text \<open>
  C1. The claim is that every invocation passes six arguments. On the code, a unit is
  invoked only for an id found in the table of built-in script modules, when neither the
  native lookup nor producing the unit gave an error; the invocation then passes exactly
  four arguments: the module's exports, the require function, the module object and the
  native value. The formal parameters \<^verbatim>\<open>__filename\<close> and \<^verbatim>\<open>__dirname\<close> of the unit get
  no argument. In every other case, a native-static module without a script among them,
  nothing is invoked.
\<close>

theorem CompileModule_invokes_unit_with_four_arguments:
  assumes "iotjs_jval_get_property (heap w) jmodule ''id'' = JString nm"
  shows "call_args (new_events w (CompileModule p jmodule jrequire w)) =
     (case builtin_entry p (c_str nm) of
        None \<Rightarrow> []
      | Some m \<Rightarrow>
          if \<not> jerry_value_has_error_flag (iotjs_module_get p (c_str nm)) \<and>
             \<not> jerry_value_has_error_flag (unit_of p nm m)
          then [[iotjs_jval_get_property (heap w) jmodule ''exports'', jrequire, JObject jmodule,
                 iotjs_module_get p (c_str nm)]]
          else [])"
  by (rule CompileModule_cases [OF assms, where p = p and jrequire = jrequire])
    (simp_all add: new_events_simps split: option.splits)

theorem CompileModule_invokes_unit_with_four_arguments_witness:
  "iotjs_jval_get_property (heap ex_world) 0 ''id'' = JString ''fs''
   \<and> call_args (new_events ex_world (CompileModule ex_platform 0 (JObject 13) ex_world)) =
       [[JObject 4, JObject 13, JObject 0, JObject 1]]"
  using ex_id_fs
    CompileModule_invokes_unit_with_four_arguments [OF ex_id_fs, of ex_platform "JObject 13"]
  by (simp add: ex_c_str ex_builtin ex_native ex_unit ex_exports)

text \<open>
  Requiring \<open>fs\<close> on the small platform invokes the unit once, with four arguments.
\<close>

theorem CompileModule_six_arguments_counterexample:
  "call_args (new_events ex_world (CompileModule ex_platform 0 (JObject 13) ex_world)) =
     [[JObject 4, JObject 13, JObject 0, JObject 1]]
   \<and> map length (call_args (new_events ex_world (CompileModule ex_platform 0 (JObject 13) ex_world)))
      \<noteq> [6]"
  unfolding ex_fs new_events_def by (simp add: ex_world_def)

subsection \<open>Native-static modules and scripts of the same name\<close>

text \<open>
  C2. The claim is that a native-static module wins over a built-in script module of the
  same name. On the code the script table decides first. When the id names a
  native-static module whose value is neither undefined nor an error and no built-in
  script module has that name, that value is assigned to the module's
  \<^verbatim>\<open>exports\<close>, undefined is returned, and the native lookup is the only call made:
  nothing is compiled or invoked. When a built-in script module of that name is
  registered, its unit is produced right after the native lookup and, unless producing it
  gave an error, invoked with the native value as its fourth argument; the heap is then
  the one the invocation left, with no assignment to \<^verbatim>\<open>exports\<close> by \<open>CompileModule\<close>.
\<close>

theorem CompileModule_native_static_without_script:
  assumes "iotjs_jval_get_property (heap w) jmodule ''id'' = JString nm"
    and "\<not> jerry_value_has_error_flag (iotjs_module_get p (c_str nm))"
  shows "(builtin_entry p (c_str nm) = None \<and> iotjs_module_get p (c_str nm) \<noteq> JUndefined \<longrightarrow>
            result_of (CompileModule p jmodule jrequire w) = Some JUndefined
          \<and> new_events w (CompileModule p jmodule jrequire w) = [EvModuleGet (c_str nm)]
          \<and> exports_after jmodule (CompileModule p jmodule jrequire w) =
              Some (iotjs_module_get p (c_str nm)))
       \<and> (builtin_entry p (c_str nm) = Some m \<longrightarrow>
            take 2 (new_events w (CompileModule p jmodule jrequire w)) =
              [EvModuleGet (c_str nm), unit_event p nm m]
          \<and> call_args (new_events w (CompileModule p jmodule jrequire w)) =
              (if jerry_value_has_error_flag (unit_of p nm m) then []
               else [[iotjs_jval_get_property (heap w) jmodule ''exports'', jrequire,
                      JObject jmodule, iotjs_module_get p (c_str nm)]])
          \<and> heap_after (CompileModule p jmodule jrequire w) =
              Some (if jerry_value_has_error_flag (unit_of p nm m) then heap w
                    else snd (jerry_call_function p (unit_of p nm m) JUndefined
                           [iotjs_jval_get_property (heap w) jmodule ''exports'', jrequire,
                            JObject jmodule, iotjs_module_get p (c_str nm)] (heap w))))"
  using assms(2) get_property_in_range [OF assms(1)]
  by (cases rule: CompileModule_cases [OF assms(1), where p = p and jrequire = jrequire])
    (auto simp: new_events_simps after_simps get_property_set_property)

theorem CompileModule_native_static_without_script_witness:
  "iotjs_jval_get_property (heap ex_world) 5 ''id'' = JString ''gpio''
   \<and> \<not> jerry_value_has_error_flag (iotjs_module_get ex_platform ''gpio'')
   \<and> builtin_entry ex_platform ''gpio'' = None
   \<and> iotjs_module_get ex_platform ''gpio'' \<noteq> JUndefined
   \<and> result_of (CompileModule ex_platform 5 (JObject 13) ex_world) = Some JUndefined
   \<and> new_events ex_world (CompileModule ex_platform 5 (JObject 13) ex_world) =
       [EvModuleGet ''gpio'']
   \<and> exports_after 5 (CompileModule ex_platform 5 (JObject 13) ex_world) = Some (JObject 2)
   \<and> builtin_entry ex_platform ''fs'' =
       Some \<lparr>js_name = ''fs'', js_code = ''exports.ok = true;'', js_idx = 0\<rparr>
   \<and> take 2 (new_events ex_world (CompileModule ex_platform 0 (JObject 13) ex_world)) =
       [EvModuleGet ''fs'', EvParseFunction ''fs'' WrapEval_args ''exports.ok = true;'']"
proof -
  have g: "\<not> jerry_value_has_error_flag (iotjs_module_get ex_platform (c_str ''gpio''))"
    and f: "\<not> jerry_value_has_error_flag (iotjs_module_get ex_platform (c_str ''fs''))"
    by (simp_all add: ex_native ex_c_str)
  from CompileModule_native_static_without_script [OF ex_id_gpio g, where jrequire = "JObject 13"]
    CompileModule_native_static_without_script [OF ex_id_fs f, where jrequire = "JObject 13"
      and m = "\<lparr>js_name = ''fs'', js_code = ''exports.ok = true;'', js_idx = 0\<rparr>"]
  show ?thesis
    by (simp add: ex_id_gpio ex_native ex_builtin ex_unit_event ex_c_str)
qed

text \<open>
  On the small platform \<open>fs\<close> is in both tables: requiring it parses and invokes the
  script, and the module's \<^verbatim>\<open>exports\<close> stays the object it was, not the native one.
\<close>

theorem CompileModule_script_shadows_native_counterexample:
  "iotjs_module_get ex_platform ''fs'' = JObject 1
   \<and> new_events ex_world (CompileModule ex_platform 0 (JObject 13) ex_world) =
       [EvModuleGet ''fs'', EvParseFunction ''fs'' WrapEval_args ''exports.ok = true;'',
        EvCallFunction (JObject 3) JUndefined [JObject 4, JObject 13, JObject 0, JObject 1]]
   \<and> exports_after 0 (CompileModule ex_platform 0 (JObject 13) ex_world) = Some (JObject 4)
   \<and> exports_after 0 (CompileModule ex_platform 0 (JObject 13) ex_world) \<noteq>
       Some (iotjs_module_get ex_platform ''fs'')"
  unfolding ex_fs new_events_def exports_after_def
  by (simp add: ex_world_def ex_native ex_heap_def iotjs_jval_get_property_def)

subsection \<open>Unknown modules\<close>

text \<open>
  C4. The claim is about every id that is absent from both tables. The code reads the
  id as a C string, so what counts is the name before the first NUL byte of the id. For
  an id whose name, read so, is in neither table, \<open>CompileModule\<close> returns the error
  value with the message \<^verbatim>\<open>Unknown native module\<close>; the heap, and with it the
  \<^verbatim>\<open>exports\<close> property of the module object, is as before, and the native lookup is the
  only call made.
\<close>

theorem CompileModule_unknown_module:
  assumes "iotjs_jval_get_property (heap w) jmodule ''id'' = JString nm"
    and "c_str nm \<notin> set (map js_name (js_modules p))"
    and "c_str nm \<notin> set (map fst (iotjs_modules p))"
  shows "CompileModule p jmodule jrequire w =
           Some (JError JERRY_ERROR_COMMON ''Unknown native module'',
                 emit (EvModuleGet (c_str nm)) w)
       \<and> result_of (CompileModule p jmodule jrequire w) =
           Some (iotjs_jval_create_error ''Unknown native module'')
       \<and> jerry_value_has_error_flag (iotjs_jval_create_error ''Unknown native module'')
       \<and> heap_after (CompileModule p jmodule jrequire w) = Some (heap w)
       \<and> exports_after jmodule (CompileModule p jmodule jrequire w) =
           Some (iotjs_jval_get_property (heap w) jmodule ''exports'')
       \<and> new_events w (CompileModule p jmodule jrequire w) = [EvModuleGet (c_str nm)]"
proof -
  have n: "iotjs_module_get p (c_str nm) = JUndefined"
    using assms(3) by (simp add: iotjs_module_get_def iotjs_module_lookup_absent)
  from CompileModule_unknown [OF assms(1) builtin_entry_absent [OF assms(2)] n]
  show ?thesis
    by (simp add: new_events_simps after_simps iotjs_jval_create_error_flag)
      (simp add: iotjs_jval_create_error_def jerry_create_error_def)
qed

theorem CompileModule_unknown_module_witness:
  "iotjs_jval_get_property (heap ex_world) 6 ''id'' = JString ''totally-unknown-module''
   \<and> c_str ''totally-unknown-module'' \<notin> set (map js_name (js_modules ex_platform))
   \<and> c_str ''totally-unknown-module'' \<notin> set (map fst (iotjs_modules ex_platform))
   \<and> result_of (CompileModule ex_platform 6 (JObject 13) ex_world) =
       Some (JError JERRY_ERROR_COMMON ''Unknown native module'')
   \<and> heap_after (CompileModule ex_platform 6 (JObject 13) ex_world) = Some (heap ex_world)
   \<and> exports_after 6 (CompileModule ex_platform 6 (JObject 13) ex_world) = Some (JObject 10)
   \<and> new_events ex_world (CompileModule ex_platform 6 (JObject 13) ex_world) =
       [EvModuleGet ''totally-unknown-module'']"
proof -
  have a: "c_str ''totally-unknown-module'' \<notin> set (map js_name (js_modules ex_platform))"
    and b: "c_str ''totally-unknown-module'' \<notin> set (map fst (iotjs_modules ex_platform))"
    by (simp_all add: ex_platform_def ex_c_str)
  from CompileModule_unknown_module [OF ex_id_unknown a b, where jrequire = "JObject 13"] a b
  show ?thesis
    by (simp add: ex_id_unknown ex_exports after_simps new_events_simps ex_c_str)
qed

text \<open>
  On the small platform, the id made of \<open>fs\<close>, a NUL byte and \<open>x\<close> is the name of no
  entry of either table. Requiring it runs the script module \<open>fs\<close>: the unit is parsed
  and invoked, and the result is what the invocation returned, not an error.
\<close>

theorem CompileModule_nul_id_counterexample:
  "iotjs_jval_get_property (heap ex_world_nul) 0 ''id'' = JString ex_nul_id
   \<and> ex_nul_id \<notin> set (map js_name (js_modules ex_platform))
   \<and> ex_nul_id \<notin> set (map fst (iotjs_modules ex_platform))
   \<and> result_of (CompileModule ex_platform 0 (JObject 13) ex_world_nul) = Some JUndefined
   \<and> result_of (CompileModule ex_platform 0 (JObject 13) ex_world_nul) \<noteq>
       Some (iotjs_jval_create_error ''Unknown native module'')
   \<and> new_events ex_world_nul (CompileModule ex_platform 0 (JObject 13) ex_world_nul) =
       [EvModuleGet ''fs'', EvParseFunction ex_nul_id WrapEval_args ''exports.ok = true;'',
        EvCallFunction (JObject 3) JUndefined [JObject 4, JObject 13, JObject 0, JObject 1]]
   \<and> heap_after (CompileModule ex_platform 0 (JObject 13) ex_world_nul) \<noteq>
       Some (heap ex_world_nul)"
proof -
  have run: "CompileModule ex_platform 0 (JObject 13) ex_world_nul =
      Some (JUndefined,
        \<lparr>heap = (heap ex_world_nul)[4 := [(''ok'', JBoolean True)]],
         trace = [EvModuleGet ''fs'',
                  EvParseFunction ex_nul_id WrapEval_args ''exports.ok = true;'',
                  EvCallFunction (JObject 3) JUndefined
                    [JObject 4, JObject 13, JObject 0, JObject 1]],
         handles = []\<rparr>)"
    by (simp add: CompileModule_def ex_c_str ex_platform_def ex_world_nul_def ex_heap_def
        iotjs_jval_get_property_def iotjs_jval_set_property_jval_def iotjs_module_get_def
        WrapEval_def emit_def Let_def)
  have absent: "ex_nul_id \<notin> set (map js_name (js_modules ex_platform))"
      "ex_nul_id \<notin> set (map fst (iotjs_modules ex_platform))"
    by (simp_all add: ex_platform_def ex_nul_id_def)
  have ident: "iotjs_jval_get_property (heap ex_world_nul) 0 ''id'' = JString ex_nul_id"
    by (simp add: ex_world_nul_def ex_heap_def iotjs_jval_get_property_def)
  have changed: "(heap ex_world_nul)[4 := [(''ok'', JBoolean True)]] \<noteq> heap ex_world_nul"
    by (simp add: ex_world_nul_def ex_heap_def)
  show ?thesis
    unfolding run using absent ident changed
    by (simp add: result_of_def heap_after_def new_events_def iotjs_jval_create_error_def
        jerry_create_error_def)
      (simp add: ex_world_nul_def)
qed

subsection \<open>Errors are passed on as they are\<close>

text \<open>
  C7. An error from the native lookup is the result of \<open>CompileModule\<close>, with nothing
  called after the lookup. An error from producing the unit is the result, with the unit
  produced once and not invoked. Otherwise the result is whatever the single invocation of
  the unit returned, an error included.
\<close>

theorem CompileModule_errors_returned_unmodified:
  assumes "iotjs_jval_get_property (heap w) jmodule ''id'' = JString nm"
  shows "(jerry_value_has_error_flag (iotjs_module_get p (c_str nm)) \<longrightarrow>
            result_of (CompileModule p jmodule jrequire w) = Some (iotjs_module_get p (c_str nm))
          \<and> new_events w (CompileModule p jmodule jrequire w) = [EvModuleGet (c_str nm)])
       \<and> (\<not> jerry_value_has_error_flag (iotjs_module_get p (c_str nm)) \<and> builtin_entry p (c_str nm) = Some m \<and>
          jerry_value_has_error_flag (unit_of p nm m) \<longrightarrow>
            result_of (CompileModule p jmodule jrequire w) = Some (unit_of p nm m)
          \<and> new_events w (CompileModule p jmodule jrequire w) =
              [EvModuleGet (c_str nm), unit_event p nm m])
       \<and> (\<not> jerry_value_has_error_flag (iotjs_module_get p (c_str nm)) \<and> builtin_entry p (c_str nm) = Some m \<and>
          \<not> jerry_value_has_error_flag (unit_of p nm m) \<longrightarrow>
            result_of (CompileModule p jmodule jrequire w) =
              Some (fst (jerry_call_function p (unit_of p nm m) JUndefined
                      [iotjs_jval_get_property (heap w) jmodule ''exports'', jrequire,
                       JObject jmodule, iotjs_module_get p (c_str nm)] (heap w)))
          \<and> new_events w (CompileModule p jmodule jrequire w) =
              [EvModuleGet (c_str nm), unit_event p nm m,
               EvCallFunction (unit_of p nm m) JUndefined
                 [iotjs_jval_get_property (heap w) jmodule ''exports'', jrequire,
                  JObject jmodule, iotjs_module_get p (c_str nm)]])"
  by (rule CompileModule_cases [OF assms, where p = p and jrequire = jrequire])
    (auto simp: new_events_emit1 new_events_emit2 new_events_emit3 new_events_emit1_heap
      after_simps)

theorem CompileModule_errors_returned_unmodified_witness:
  "result_of (CompileModule ex_platform 7 (JObject 13) ex_world) =
     Some (JError JERRY_ERROR_COMMON ''init failed'')
   \<and> new_events ex_world (CompileModule ex_platform 7 (JObject 13) ex_world) =
       [EvModuleGet ''bad'']
   \<and> result_of (CompileModule ex_platform 8 (JObject 13) ex_world) =
       Some (JError JERRY_ERROR_SYNTAX ''unexpected end'')
   \<and> new_events ex_world (CompileModule ex_platform 8 (JObject 13) ex_world) =
       [EvModuleGet ''util'', EvParseFunction ''util'' WrapEval_args ''exports.ok = ('']
   \<and> result_of (CompileModule ex_platform 15 (JObject 13) ex_world) =
       Some (JError JERRY_ERROR_COMMON ''thrown'')"
  using CompileModule_errors_returned_unmodified [OF ex_id_bad, where p = ex_platform and jrequire = "JObject 13"]
    CompileModule_errors_returned_unmodified [OF ex_id_util, where p = ex_platform and jrequire = "JObject 13"
      and m = "\<lparr>js_name = ''util'', js_code = ''exports.ok = ('', js_idx = 1\<rparr>"]
    CompileModule_errors_returned_unmodified [OF ex_id_boom, where p = ex_platform and jrequire = "JObject 13"
      and m = "\<lparr>js_name = ''boom'', js_code = ''throw new Error();'', js_idx = 2\<rparr>"]
  by (simp add: ex_native ex_builtin ex_unit ex_unit_event ex_call ex_c_str)

subsection \<open>The native lookup comes first\<close>

text \<open>
  C10. The first call \<open>CompileModule\<close> makes is the native lookup, for every id. If the
  lookup yields an error, that error is returned, no other call is made and the heap is
  unchanged, whether or not a script module has that name. If it yields no error and a
  script module has the name, the unit is produced right after the lookup, and if
  producing it gave no error, the one call that follows is the call of that unit with
  four arguments, the fourth being the value the lookup yielded. If no script module has
  the name, the lookup stays the only call.
\<close>

theorem CompileModule_native_lookup_first:
  assumes "iotjs_jval_get_property (heap w) jmodule ''id'' = JString nm"
  shows "take 1 (new_events w (CompileModule p jmodule jrequire w)) = [EvModuleGet (c_str nm)]
       \<and> (jerry_value_has_error_flag (iotjs_module_get p (c_str nm)) \<longrightarrow>
            result_of (CompileModule p jmodule jrequire w) = Some (iotjs_module_get p (c_str nm))
          \<and> new_events w (CompileModule p jmodule jrequire w) = [EvModuleGet (c_str nm)]
          \<and> heap_after (CompileModule p jmodule jrequire w) = Some (heap w))
       \<and> (\<not> jerry_value_has_error_flag (iotjs_module_get p (c_str nm)) \<and>
          builtin_entry p (c_str nm) = Some m \<and>
          \<not> jerry_value_has_error_flag (unit_of p nm m) \<longrightarrow>
            new_events w (CompileModule p jmodule jrequire w) =
              [EvModuleGet (c_str nm), unit_event p nm m,
               EvCallFunction (unit_of p nm m) JUndefined
                 [iotjs_jval_get_property (heap w) jmodule ''exports'', jrequire,
                  JObject jmodule, iotjs_module_get p (c_str nm)]]
          \<and> result_of (CompileModule p jmodule jrequire w) =
              Some (fst (jerry_call_function p (unit_of p nm m) JUndefined
                      [iotjs_jval_get_property (heap w) jmodule ''exports'', jrequire,
                       JObject jmodule, iotjs_module_get p (c_str nm)] (heap w)))
          \<and> heap_after (CompileModule p jmodule jrequire w) =
              Some (snd (jerry_call_function p (unit_of p nm m) JUndefined
                      [iotjs_jval_get_property (heap w) jmodule ''exports'', jrequire,
                       JObject jmodule, iotjs_module_get p (c_str nm)] (heap w))))
       \<and> (\<not> jerry_value_has_error_flag (iotjs_module_get p (c_str nm)) \<and>
          builtin_entry p (c_str nm) = Some m \<and>
          jerry_value_has_error_flag (unit_of p nm m) \<longrightarrow>
            new_events w (CompileModule p jmodule jrequire w) =
              [EvModuleGet (c_str nm), unit_event p nm m])
       \<and> (\<not> jerry_value_has_error_flag (iotjs_module_get p (c_str nm)) \<and>
          builtin_entry p (c_str nm) = None \<longrightarrow>
            new_events w (CompileModule p jmodule jrequire w) = [EvModuleGet (c_str nm)])"
  by (rule CompileModule_cases [OF assms, where p = p and jrequire = jrequire])
    (auto simp: new_events_emit1 new_events_emit2 new_events_emit3 new_events_emit1_heap
      after_simps)

theorem CompileModule_native_lookup_first_witness:
  "builtin_entry ex_platform ''bad'' =
     Some \<lparr>js_name = ''bad'', js_code = ''exports.ok = true;'', js_idx = 3\<rparr>
   \<and> jerry_value_has_error_flag (iotjs_module_get ex_platform ''bad'')
   \<and> result_of (CompileModule ex_platform 7 (JObject 13) ex_world) =
       Some (JError JERRY_ERROR_COMMON ''init failed'')
   \<and> new_events ex_world (CompileModule ex_platform 7 (JObject 13) ex_world) =
       [EvModuleGet ''bad'']
   \<and> \<not> jerry_value_has_error_flag (iotjs_module_get ex_platform ''fs'')
   \<and> new_events ex_world (CompileModule ex_platform 0 (JObject 13) ex_world) =
       [EvModuleGet ''fs'', EvParseFunction ''fs'' WrapEval_args ''exports.ok = true;'',
        EvCallFunction (JObject 3) JUndefined
          [JObject 4, JObject 13, JObject 0, iotjs_module_get ex_platform ''fs'']]
   \<and> iotjs_module_get ex_platform ''fs'' = JObject 1
   \<and> builtin_entry ex_platform ''gpio'' = None
   \<and> new_events ex_world (CompileModule ex_platform 5 (JObject 13) ex_world) =
       [EvModuleGet ''gpio'']"
  using CompileModule_native_lookup_first [OF ex_id_bad, where p = ex_platform
      and jrequire = "JObject 13"]
    CompileModule_native_lookup_first [OF ex_id_fs, where p = ex_platform
      and jrequire = "JObject 13"
      and m = "\<lparr>js_name = ''fs'', js_code = ''exports.ok = true;'', js_idx = 0\<rparr>"]
    CompileModule_native_lookup_first [OF ex_id_gpio, where p = ex_platform
      and jrequire = "JObject 13"]
  by (simp add: ex_native ex_builtin ex_unit ex_unit_event ex_exports ex_c_str)

subsection \<open>Loading a plugin\<close>

text \<open>
  C3. The claim is that the two failures of \<open>DLOpen\<close> are errors of two kinds, the
  first carrying the loader's diagnostic. On the code, when the object cannot be opened
  the diagnostic is written to the standard error stream and the number \<open>-1\<close> is returned,
  a plain value without the error flag. When the object is opened but has no symbol
  \<^verbatim>\<open>iotjs_module_register\<close>, the diagnostic is written to the standard error stream, the
  handle is closed, so that the open handles are those from before the call, and the
  same number \<open>-1\<close> is returned. When the symbol is found, the entry function is called with
  a new object, that object is returned, and the handle stays open.
\<close>

theorem DLOpen_outcomes:
  "(dlopen p location = Inl diag \<longrightarrow>
      DLOpen p location w =
        (JNumber (- 1),
         emit (EvStderr (''dlopen: error('' @ diag @ '')'' @ [CHR 0x0A]))
           (emit (EvDlopen location) w)))
   \<and> (dlopen p location = Inr handle \<and> dlsym p handle ''iotjs_module_register'' = Inl err \<longrightarrow>
        fst (DLOpen p location w) = JNumber (- 1)
      \<and> handles (snd (DLOpen p location w)) = handles w
      \<and> heap (snd (DLOpen p location w)) = heap w
      \<and> trace (snd (DLOpen p location w)) =
          trace w @ [EvDlopen location, EvDlsym handle ''iotjs_module_register'',
                     EvStderr (''dlsym: error('' @ err @ '')'' @ [CHR 0x0A]), EvDlclose handle])
   \<and> (dlopen p location = Inr handle \<and> dlsym p handle ''iotjs_module_register'' = Inr initfn \<longrightarrow>
        fst (DLOpen p location w) = JObject (length (heap w))
      \<and> heap (snd (DLOpen p location w)) = initfn (length (heap w)) (heap w @ [[]])
      \<and> handles (snd (DLOpen p location w)) = handle # handles w
      \<and> trace (snd (DLOpen p location w)) =
          trace w @ [EvDlopen location, EvDlsym handle ''iotjs_module_register'',
                     EvInitfn handle (length (heap w))])"
  by (simp add: DLOpen_def Let_def emit_def jerry_create_object_def)

theorem DLOpen_outcomes_witness:
  "dlopen ex_platform ''./missing.so'' = Inl ''cannot open shared object file''
   \<and> DLOpen ex_platform ''./missing.so'' ex_world =
       (JNumber (- 1),
        emit (EvStderr (''dlopen: error(cannot open shared object file)'' @ [CHR 0x0A]))
          (emit (EvDlopen ''./missing.so'') ex_world))
   \<and> dlopen ex_platform ''./nosymbol.so'' = Inr 2
   \<and> dlsym ex_platform 2 ''iotjs_module_register'' =
       Inl ''undefined symbol: iotjs_module_register''
   \<and> fst (DLOpen ex_platform ''./nosymbol.so'' ex_world) = JNumber (- 1)
   \<and> handles (snd (DLOpen ex_platform ''./nosymbol.so'' ex_world)) = []
   \<and> dlopen ex_platform ''./valid.so'' = Inr 3
   \<and> fst (DLOpen ex_platform ''./valid.so'' ex_world) = JObject 17
   \<and> heap (snd (DLOpen ex_platform ''./valid.so'' ex_world)) ! 17 = [(''hello'', JNumber 1)]
   \<and> handles (snd (DLOpen ex_platform ''./valid.so'' ex_world)) = [3]"
proof -
  have missing: "DLOpen ex_platform ''./missing.so'' ex_world =
       (JNumber (- 1),
        emit (EvStderr (''dlopen: error(cannot open shared object file)'' @ [CHR 0x0A]))
          (emit (EvDlopen ''./missing.so'') ex_world))"
    using DLOpen_outcomes [where p = ex_platform and location = "''./missing.so''" and w = ex_world
      and diag = "''cannot open shared object file''"]
    by (simp add: ex_dl)
  have nosymbol: "fst (DLOpen ex_platform ''./nosymbol.so'' ex_world) = JNumber (- 1)
      \<and> handles (snd (DLOpen ex_platform ''./nosymbol.so'' ex_world)) = handles ex_world"
    using DLOpen_outcomes [where p = ex_platform and location = "''./nosymbol.so''" and w = ex_world
      and handle = 2 and err = "''undefined symbol: iotjs_module_register''"]
    by (simp add: ex_dl)
  have valid: "fst (DLOpen ex_platform ''./valid.so'' ex_world) = JObject (length (heap ex_world))
      \<and> heap (snd (DLOpen ex_platform ''./valid.so'' ex_world)) =
          iotjs_jval_set_property_jval (heap ex_world @ [[]]) (length (heap ex_world))
            ''hello'' (JNumber 1)
      \<and> handles (snd (DLOpen ex_platform ''./valid.so'' ex_world)) = 3 # handles ex_world"
    using DLOpen_outcomes [where p = ex_platform and location = "''./valid.so''" and w = ex_world
      and handle = 3
      and initfn = "\<lambda>exports h. iotjs_jval_set_property_jval h exports ''hello'' (JNumber 1)"]
    by (simp add: ex_dl)
  have len: "length (heap ex_world) = 17"
    by (simp add: ex_world_def ex_heap_def)
  from missing nosymbol valid show ?thesis
    by (simp add: ex_dl ex_world_fields len [unfolded ex_world_fields]
        iotjs_jval_set_property_jval_def nth_append)
qed

text \<open>
  On the small platform, loading a path that cannot be opened returns \<open>-1\<close>, which has no
  error flag and is the very value returned for an object without the entry symbol.
\<close>

theorem DLOpen_failure_is_plain_number_counterexample:
  "fst (DLOpen ex_platform ''./missing.so'' ex_world) = JNumber (- 1)
   \<and> \<not> jerry_value_has_error_flag (fst (DLOpen ex_platform ''./missing.so'' ex_world))
   \<and> fst (DLOpen ex_platform ''./nosymbol.so'' ex_world) =
       fst (DLOpen ex_platform ''./missing.so'' ex_world)"
  by (simp add: DLOpen_def Let_def ex_dl)

subsection \<open>Only regular files are read\<close>

text \<open>
  C5. The claim is that a path that is a directory, a device or missing gives the error
  before anything is read. For a missing path the stat fails and writes no mode; the
  code does not look at the result of the stat and tests the mode that the local request
  held before. On the small platform, with a request that holds the mode of a regular
  file, \<open>ReadSource\<close> of a missing path passes the test, reads the file and returns its
  content as a string, with no error; \<open>CompileSnapshot\<close> of that path reads as well.
\<close>

theorem ReadSource_missing_path_is_read:
  "uv_fs_stat ex_platform ''/lib/missing.js'' = None
   \<and> ReadSource ex_platform ''/lib/missing.js'' 0x81A4 ex_world =
       (JString [],
        emit (EvFileRead ''/lib/missing.js'') (emit (EvFsStat ''/lib/missing.js'') ex_world))
   \<and> \<not> jerry_value_has_error_flag (fst (ReadSource ex_platform ''/lib/missing.js'' 0x81A4 ex_world))
   \<and> trace (snd (CompileSnapshot ex_platform ''/lib/missing.js'' 0x81A4 ex_world)) =
       [EvFsStat ''/lib/missing.js'', EvFileRead ''/lib/missing.js'']"
  by (simp add: ReadSource_def CompileSnapshot_def Let_def ex_stat S_ISREG_examples trace_emit
      ex_world_fields jerry_create_error_def)
    (simp add: ex_platform_def trace_emit ex_world_fields)

text \<open>
  What holds for every path: if the mode tested, the one the stat wrote or else the one
  the request held, is not that of a regular file, both functions return the error
  \<^verbatim>\<open>ReadSource error, not a regular file\<close> and the stat is the only access to the file
  system. A directory and a device are such paths, whatever the request held.
\<close>

lemma not_regular_mode_fails_before_read:
  assumes "\<not> S_ISREG (statbuf_st_mode p path fs_req)"
  shows "ReadSource p path fs_req w =
           (JError JERRY_ERROR_COMMON ''ReadSource error, not a regular file'',
            emit (EvFsStat path) w)
       \<and> CompileSnapshot p path fs_req w =
           (JError JERRY_ERROR_COMMON ''ReadSource error, not a regular file'',
            emit (EvFsStat path) w)"
  using assms
  by (simp add: ReadSource_def CompileSnapshot_def jerry_create_error_def Let_def)

lemma directory_and_device_fail_before_read:
  "ReadSource ex_platform ''/lib'' fs_req ex_world =
     (JError JERRY_ERROR_COMMON ''ReadSource error, not a regular file'',
      emit (EvFsStat ''/lib'') ex_world)
   \<and> ReadSource ex_platform ''/dev/null'' fs_req ex_world =
     (JError JERRY_ERROR_COMMON ''ReadSource error, not a regular file'',
      emit (EvFsStat ''/dev/null'') ex_world)"
  using not_regular_mode_fails_before_read [of ex_platform "''/lib''" fs_req ex_world]
    not_regular_mode_fails_before_read [of ex_platform "''/dev/null''" fs_req ex_world]
  by (simp add: ex_stat S_ISREG_examples)

subsection \<open>An empty snapshot is an error\<close>

text \<open>
  C6. If reading the snapshot file gives no buffer or a buffer of size zero,
  \<open>CompileSnapshot\<close> returns an error: when the mode tested is that of a regular file,
  the error \<^verbatim>\<open>Could not load the snapshot source.\<close>; and the engine is never asked to
  execute a snapshot, the calls being the stat and, after a passed test, the read.
\<close>

theorem CompileSnapshot_empty_buffer_fails:
  assumes "iotjs__file_read p path = None \<or> iotjs__file_read p path = Some []"
  shows "jerry_value_has_error_flag (fst (CompileSnapshot p path fs_req w))
       \<and> (S_ISREG (statbuf_st_mode p path fs_req) \<longrightarrow>
            fst (CompileSnapshot p path fs_req w) =
              JError JERRY_ERROR_COMMON ''Could not load the snapshot source.'')
       \<and> trace (snd (CompileSnapshot p path fs_req w)) =
           trace w @ (if S_ISREG (statbuf_st_mode p path fs_req)
                      then [EvFsStat path, EvFileRead path]
                      else [EvFsStat path])"
  using assms
  by (auto simp: CompileSnapshot_def jerry_create_error_def Let_def trace_emit)

theorem CompileSnapshot_empty_buffer_fails_witness:
  "iotjs__file_read ex_platform ''/lib/empty.snapshot'' = Some []
   \<and> S_ISREG (statbuf_st_mode ex_platform ''/lib/empty.snapshot'' 0)
   \<and> fst (CompileSnapshot ex_platform ''/lib/empty.snapshot'' 0 ex_world) =
       JError JERRY_ERROR_COMMON ''Could not load the snapshot source.''
   \<and> trace (snd (CompileSnapshot ex_platform ''/lib/empty.snapshot'' 0 ex_world)) =
       [EvFsStat ''/lib/empty.snapshot'', EvFileRead ''/lib/empty.snapshot'']
   \<and> iotjs__file_read ex_platform ''/lib/a.js'' = None
   \<and> fst (CompileSnapshot ex_platform ''/lib/a.js'' 0 ex_world) =
       JError JERRY_ERROR_COMMON ''Could not load the snapshot source.''"
proof -
  have e: "iotjs__file_read ex_platform ''/lib/empty.snapshot'' = None \<or>
           iotjs__file_read ex_platform ''/lib/empty.snapshot'' = Some []"
    and u: "iotjs__file_read ex_platform ''/lib/a.js'' = None \<or>
            iotjs__file_read ex_platform ''/lib/a.js'' = Some []"
    by (simp_all add: ex_file_read)
  from CompileSnapshot_empty_buffer_fails [OF e, of 0 ex_world]
    CompileSnapshot_empty_buffer_fails [OF u, of 0 ex_world] show ?thesis
    by (simp add: ex_file_read ex_stat S_ISREG_examples ex_world_fields)
qed

subsection \<open>The listing of built-in modules\<close>

text \<open>
  C9. The object \<^verbatim>\<open>process.builtin_modules\<close> that \<^verbatim>\<open>InitProcess\<close> builds is a new
  object whose properties are exactly the names of the script table followed by those of
  the native table, in that order, each name once, at its first occurrence, and each with
  the value true. The objects that existed before are untouched.
\<close>

theorem builtin_modules_listing:
  "fst (InitProcess_builtin_modules p h) = length h
   \<and> snd (InitProcess_builtin_modules p h) ! length h =
       map (\<lambda>n. (n, JBoolean True))
         (first_occurrences (map js_name (js_modules p) @ map fst (iotjs_modules p)))
   \<and> set (map fst (snd (InitProcess_builtin_modules p h) ! length h)) =
       set (map js_name (js_modules p)) \<union> set (map fst (iotjs_modules p))
   \<and> distinct (map fst (snd (InitProcess_builtin_modules p h) ! length h))
   \<and> take (length h) (snd (InitProcess_builtin_modules p h)) = h"
proof -
  let ?ns = "map js_name (js_modules p) @ map fst (iotjs_modules p)"
  let ?h' = "set_names_true (h @ [[]]) (length h) ?ns"
  have eq: "InitProcess_builtin_modules p h = (length h, ?h')"
    by (simp add: InitProcess_builtin_modules_def jerry_create_object_def SetBuiltinModules_def
        set_names_true_append Let_def)
  have obj: "?h' ! length h = map (\<lambda>n. (n, JBoolean True)) (first_occurrences ?ns)"
    using set_names_true_object [of "length h" "h @ [[]]" "[]" ?ns] by simp
  have keys: "map fst (?h' ! length h) = first_occurrences ?ns"
    unfolding obj by (simp add: comp_def)
  have rest: "take (length h) ?h' = h"
    by (rule nth_equalityI)
      (simp_all add: set_names_true_length set_names_true_other nth_append)
  show ?thesis
    unfolding eq fst_conv snd_conv keys
    using obj rest by (simp add: set_first_occurrences distinct_first_occurrences)
qed

text \<open>On the small platform, \<open>fs\<close> and \<open>bad\<close>, which are in both tables, are listed once.\<close>

theorem builtin_modules_listing_example:
  "fst (InitProcess_builtin_modules ex_platform ex_heap) = 17
   \<and> snd (InitProcess_builtin_modules ex_platform ex_heap) ! 17 =
     [(''fs'', JBoolean True), (''util'', JBoolean True), (''boom'', JBoolean True),
      (''bad'', JBoolean True), (''gpio'', JBoolean True)]"
  using builtin_modules_listing [of ex_platform ex_heap]
  by (simp add: ex_tables ex_heap_length)

end
